theory Spec2Isabelle
  imports Complex_Main
begin

section \<open>GuitarToClick: the onset detector of \<^verbatim>\<open>main.py\<close>\<close>

text \<open>
  The class \<^verbatim>\<open>GuitarMouseClicker\<close> samples an audio device, computes the RMS volume of
  every delivered block and fires a mouse click when the volume exceeds a threshold and
  enough time has passed since the last click.

  Numbers: Python floats (volumes, thresholds, \<^verbatim>\<open>time.time()\<close> readings) are modelled as
  \<^typ>\<open>real\<close>, so comparisons and the subtraction \<^verbatim>\<open>current_time - last_click_time\<close> are
  exact; rounding, infinities and NaN are outside the model.  The clock is not read by the
  model: every function that calls \<^verbatim>\<open>time.time()\<close> takes the reading as an argument.
\<close>

subsection \<open>Data\<close>

text \<open>
  \<^verbatim>\<open>collections.deque(maxlen=n)\<close>: the bound is fixed when the deque is built
  (\<open>None\<close> is the unbounded deque).  \<^verbatim>\<open>append\<close> adds on the right and, when the length
  then exceeds the bound, removes one element on the left.
\<close>

record deque =
  maxlen :: "nat option"
  items :: "real list"

definition deque_new :: "nat option \<Rightarrow> deque" where
  "deque_new m = \<lparr>maxlen = m, items = []\<rparr>"

definition deque_append :: "deque \<Rightarrow> real \<Rightarrow> deque" where
  "deque_append d x =
     (let ys = items d @ [x] in
      case maxlen d of
        None \<Rightarrow> d\<lparr>items := ys\<rparr>
      | Some m \<Rightarrow> if m < length ys then d\<lparr>items := tl ys\<rparr> else d\<lparr>items := ys\<rparr>)"

text \<open>
  The fields of a \<^verbatim>\<open>GuitarMouseClicker\<close> that the detector reads or writes.
  \<^verbatim>\<open>stop_event\<close> is the flag of the \<^verbatim>\<open>threading.Event\<close>.  The fields \<^verbatim>\<open>DTYPE\<close>,
  \<^verbatim>\<open>audio_stream\<close> and \<^verbatim>\<open>device_info\<close> are assigned once in the constructor and never
  read by the functions below; they are left out.
\<close>

record clicker =
  CHUNK :: nat
  CHANNELS :: nat
  RATE :: int
  THRESHOLD :: real
  DEBOUNCE_TIME :: real
  WINDOW_SIZE :: nat
  is_running :: bool
  last_click_time :: real
  volume_history :: deque
  stop_event :: bool
  device_index :: int

text \<open>
  \<^verbatim>\<open>__init__\<close>.  \<^verbatim>\<open>setup_audio\<close> talks to the audio backend and the console; what it
  leaves in the object is the chosen device index and that device's preferred sample
  rate, which are the two arguments here.
\<close>

definition init :: "int \<Rightarrow> int \<Rightarrow> clicker" where
  "init dev preferred_rate =
     \<lparr>CHUNK = 1024,
      CHANNELS = 1,
      RATE = (if preferred_rate \<noteq> 44100 then preferred_rate else 44100),
      THRESHOLD = 1 / 100,
      DEBOUNCE_TIME = 2 / 10,
      WINDOW_SIZE = 5,
      is_running = False,
      last_click_time = 0,
      volume_history = deque_new (Some 5),
      stop_event = False,
      device_index = dev\<rparr>"

text \<open>What a method prints: fixed text, or a formatted line with the values it shows.\<close>

datatype console =
    Print string
  | PrintAudioStatus
  | PrintListening real
  | PrintStreamError string
  | PrintSensitivity real

text \<open>
  A block as the stream delivers it.  A two-dimensional array has one row per frame; the
  stream is opened with at least one channel, so a row is its first sample and the
  samples of the remaining channels.
\<close>

datatype ndarray =
    Array1 "real list"
  | Array2 "(real \<times> real list) list"

subsection \<open>Volume\<close>

text \<open>\<^verbatim>\<open>audio_data ** 2\<close> and \<^verbatim>\<open>np.mean\<close> on a one-dimensional array.\<close>

definition np_square :: "real list \<Rightarrow> real list" where
  "np_square xs = map (\<lambda>x. x * x) xs"

definition np_mean :: "real list \<Rightarrow> real" where
  "np_mean xs = sum_list xs / real (length xs)"

text \<open>
  \<^verbatim>\<open>calculate_volume(self, audio_data)\<close>.  The method gets the object and assigns nothing
  to it; the model returns the object with the value so that this is visible.
\<close>

definition calculate_volume :: "clicker \<Rightarrow> real list \<Rightarrow> clicker \<times> real" where
  "calculate_volume self audio_data =
     (if length audio_data = 0 then (self, 0)
      else (self, sqrt (np_mean (np_square audio_data))))"

subsection \<open>The click decision\<close>

text \<open>
  \<^verbatim>\<open>should_click(self, current_volume)\<close>; \<open>current_time\<close> is what \<^verbatim>\<open>time.time()\<close>
  returns in its first line.
\<close>

definition should_click :: "clicker \<Rightarrow> real \<Rightarrow> real \<Rightarrow> clicker \<times> bool" where
  "should_click self current_volume current_time =
     (let self1 = self\<lparr>volume_history := deque_append (volume_history self) current_volume\<rparr>;
          volume_spike = current_volume > THRESHOLD self1;
          time_passed = (current_time - last_click_time self1) > DEBOUNCE_TIME self1
      in if volume_spike \<and> time_passed
         then (self1\<lparr>last_click_time := current_time\<rparr>, True)
         else (self1, False))"

text \<open>
  A sequence of \<open>should_click\<close> calls on one object, each given as its volume and its
  clock reading; the result is the final object and the value every call returned.
\<close>

fun should_click_calls :: "clicker \<Rightarrow> (real \<times> real) list \<Rightarrow> clicker \<times> bool list" where
  "should_click_calls self [] = (self, [])"
| "should_click_calls self ((v, t) # cs) =
     (let (self1, r) = should_click self v t;
          (self2, rs) = should_click_calls self1 cs
      in (self2, r # rs))"

text \<open>
  The history and its bound agree with \<open>WINDOW_SIZE\<close>, as the constructor builds them.
\<close>

definition history_ok :: "clicker \<Rightarrow> bool" where
  "history_ok self =
     (maxlen (volume_history self) = Some (WINDOW_SIZE self)
      \<and> length (items (volume_history self)) \<le> WINDOW_SIZE self)"

text \<open>The formula of the specification for the volume of a block: \<open>sqrt(mean(x_i^2))\<close>.\<close>

definition rms :: "real list \<Rightarrow> real" where
  "rms xs = sqrt ((\<Sum>x\<leftarrow>xs. x\<^sup>2) / real (length xs))"

subsection \<open>The audio callback\<close>

text \<open>
  \<^verbatim>\<open>audio_callback(self, indata, frames, time, status)\<close>.  \<open>status\<close> is the truth value of
  the backend's status flags and \<open>now\<close> the clock reading of the \<open>should_click\<close> call.
  The third component of the result lists the click threads the callback starts, each by
  the volume it is given.
\<close>

definition audio_callback ::
  "clicker \<Rightarrow> ndarray \<Rightarrow> bool \<Rightarrow> real \<Rightarrow> clicker \<times> console list \<times> real list" where
  "audio_callback self indata status now =
     (let out = (if status then [PrintAudioStatus] else []) in
      if stop_event self then (self, out, [])
      else
        let audio_data = (case indata of Array2 rows \<Rightarrow> map fst rows | Array1 xs \<Rightarrow> xs);
            (self1, volume) = calculate_volume self audio_data;
            (self2, click) = should_click self1 volume now
        in (self2, out, if click then [volume] else []))"

subsection \<open>Starting and stopping\<close>

text \<open>
  The methods the front end calls either return, raise or do not come back.
\<close>

datatype exn = Exception string | KeyboardInterrupt

datatype 'a outcome = Returns 'a | Raises exn | Diverges

text \<open>\<^verbatim>\<open>stop(self)\<close>.\<close>

definition stop :: "clicker \<Rightarrow> (clicker \<times> console list) outcome" where
  "stop self =
     Returns (self\<lparr>is_running := False, stop_event := True\<rparr>,
              [Print (CHR 0x0A # ''Stopping...''), Print ''Stopped!''])"

text \<open>
  What happens while \<open>start\<close> is inside its \<^verbatim>\<open>with\<close> block: the backend delivers a block
  to \<open>audio_callback\<close> (with its status flag and the clock reading), or another thread
  calls \<open>stop\<close>.
\<close>

datatype stream_event = Block ndarray bool real | StopCall

fun run_stream :: "clicker \<Rightarrow> stream_event list \<Rightarrow> clicker \<times> console list \<times> real list" where
  "run_stream self [] = (self, [], [])"
| "run_stream self (Block indata status now # evs) =
     (let (self1, out1, clicks1) = audio_callback self indata status now;
          (self2, out2, clicks2) = run_stream self1 evs
      in (self2, out1 @ out2, clicks1 @ clicks2))"
| "run_stream self (StopCall # evs) =
     (case stop self of
        Returns (self1, out1) \<Rightarrow>
          (let (self2, out2, clicks2) = run_stream self1 evs
           in (self2, out1 @ out2, clicks2))
      | _ \<Rightarrow> (self, [], []))"

text \<open>
  How the \<^verbatim>\<open>try\<close> statement of \<open>start\<close> is left when the waiting loop does not see the
  flags change: an exception (opening or running the stream fails, or the user presses
  Ctrl+C), or never.
\<close>

datatype stream_end = Raised exn | NeverLeft

text \<open>
  \<^verbatim>\<open>start(self)\<close>.  \<open>evs\<close> are the events that happen inside the \<^verbatim>\<open>with\<close> block.  The loop
  \<^verbatim>\<open>while self.is_running and not self.stop_event.is_set()\<close> only sleeps; it ends when a
  \<open>stop\<close> call has changed the flags, and otherwise the statement is left as \<open>e\<close> says.
  \<^verbatim>\<open>finally\<close> calls \<open>stop\<close> on every path that leaves the statement.
\<close>

definition start ::
  "clicker \<Rightarrow> stream_event list \<Rightarrow> stream_end \<Rightarrow> (clicker \<times> console list \<times> real list) outcome" where
  "start self evs e =
     (if is_running self then Returns (self, [Print ''Already running!''], [])
      else
        let self1 = self\<lparr>is_running := True, stop_event := False\<rparr>;
            out1 = [PrintListening (THRESHOLD self1),
                    Print ''Strum your guitar to trigger mouse clicks!'',
                    Print ''Press Ctrl+C to stop''];
            (self2, out2, clicks) = run_stream self1 evs;
            finally = (\<lambda>out3.
              case stop self2 of
                Returns (self3, out4) \<Rightarrow> Returns (self3, out1 @ out2 @ out3 @ out4, clicks)
              | Raises x \<Rightarrow> Raises x
              | Diverges \<Rightarrow> Diverges)
        in if is_running self2 \<and> \<not> stop_event self2
           then (case e of
                   Raised (Exception msg) \<Rightarrow>
                     finally [PrintStreamError msg,
                       Print (CHR 0x0A # ''Troubleshooting tips:''),
                       Print ''1. Make sure your Rocksmith cable is plugged in'',
                       Print ''2. Try selecting a different device number'',
                       Print ''3. Check Windows Sound settings - make sure the cable shows input levels'',
                       Print ''4. Try running as administrator'']
                 | Raised KeyboardInterrupt \<Rightarrow> finally []
                 | NeverLeft \<Rightarrow> Diverges)
           else finally [])"

subsection \<open>Sensitivity\<close>

text \<open>\<^verbatim>\<open>adjust_sensitivity(self, new_threshold)\<close>.\<close>

definition adjust_sensitivity :: "clicker \<Rightarrow> real \<Rightarrow> (clicker \<times> console list) outcome" where
  "adjust_sensitivity self new_threshold =
     (let self1 = self\<lparr>THRESHOLD := max (1 / 1000) (min 1 new_threshold)\<rparr>
      in Returns (self1, [PrintSensitivity (THRESHOLD self1)]))"

section \<open>Properties\<close>

subsection \<open>Auxiliary facts\<close>

lemma calculate_volume_single: "calculate_volume s [x] = (s, \<bar>x\<bar>)"
  by (simp add: calculate_volume_def np_mean_def np_square_def)

lemma should_click_config:
  "THRESHOLD (fst (should_click s v t)) = THRESHOLD s"
  "DEBOUNCE_TIME (fst (should_click s v t)) = DEBOUNCE_TIME s"
  "WINDOW_SIZE (fst (should_click s v t)) = WINDOW_SIZE s"
  by (simp_all add: should_click_def Let_def)

lemma should_click_history:
  "volume_history (fst (should_click s v t)) = deque_append (volume_history s) v"
  by (simp add: should_click_def Let_def)

lemma should_click_last:
  "last_click_time (fst (should_click s v t)) = (if snd (should_click s v t) then t else last_click_time s)"
  by (simp add: should_click_def Let_def)

lemma should_click_result:
  "snd (should_click s v t) = (THRESHOLD s < v \<and> DEBOUNCE_TIME s < t - last_click_time s)"
  by (simp add: should_click_def Let_def)

lemma calls_config:
  "THRESHOLD (fst (should_click_calls s cs)) = THRESHOLD s \<and>
   DEBOUNCE_TIME (fst (should_click_calls s cs)) = DEBOUNCE_TIME s \<and>
   WINDOW_SIZE (fst (should_click_calls s cs)) = WINDOW_SIZE s"
proof (induction cs arbitrary: s)
  case Nil
  show ?case by simp
next
  case (Cons c cs)
  obtain v t where c: "c = (v, t)" by (cases c)
  show ?case
    using Cons.IH [of "fst (should_click s v t)"]
    by (simp add: c split_beta should_click_config)
qed

lemma calls_quiet_last:
  "\<forall>r\<in>set (snd (should_click_calls s cs)). \<not> r \<Longrightarrow>
   last_click_time (fst (should_click_calls s cs)) = last_click_time s"
proof (induction cs arbitrary: s)
  case Nil
  show ?case by simp
next
  case (Cons c cs)
  obtain v t where c: "c = (v, t)" by (cases c)
  from Cons.prems have quiet: "\<not> snd (should_click s v t)"
    and rest: "\<forall>r\<in>set (snd (should_click_calls (fst (should_click s v t)) cs)). \<not> r"
    by (auto simp add: c split_beta)
  have "last_click_time (fst (should_click_calls (fst (should_click s v t)) cs))
        = last_click_time (fst (should_click s v t))"
    by (rule Cons.IH [OF rest])
  with quiet show ?case
    by (simp add: c split_beta should_click_last)
qed

lemma calls_in_window:
  "\<forall>c\<in>set cs. snd c \<le> last_click_time s + DEBOUNCE_TIME s \<Longrightarrow>
   \<forall>r\<in>set (snd (should_click_calls s cs)). \<not> r"
proof (induction cs arbitrary: s)
  case Nil
  show ?case by simp
next
  case (Cons c cs)
  obtain v t where c: "c = (v, t)" by (cases c)
  from Cons.prems have t: "t \<le> last_click_time s + DEBOUNCE_TIME s"
    and later: "\<forall>c\<in>set cs. snd c \<le> last_click_time s + DEBOUNCE_TIME s"
    by (simp_all add: c)
  from t have quiet: "\<not> snd (should_click s v t)"
    by (simp add: should_click_result)
  then have same: "last_click_time (fst (should_click s v t)) = last_click_time s"
    by (simp add: should_click_last)
  have "\<forall>r\<in>set (snd (should_click_calls (fst (should_click s v t)) cs)). \<not> r"
    by (rule Cons.IH) (simp add: same should_click_config later)
  with quiet show ?case
    by (simp add: c split_beta)
qed

lemma sum_list_squares_nonneg: "0 \<le> sum_list (map (\<lambda>x. x * x) (xs :: real list))"
  by (induction xs) simp_all

lemma np_mean_square_nonneg: "0 \<le> np_mean (np_square xs)"
  by (simp add: np_mean_def np_square_def sum_list_squares_nonneg)

lemma sum_list_replicate_zero: "sum_list (replicate n (0::real)) = 0"
  by (induction n) simp_all

lemma deque_append_items:
  "maxlen d = Some m \<Longrightarrow> length (items d) \<le> m \<Longrightarrow>
   items (deque_append d x) = drop (Suc (length (items d)) - m) (items d @ [x])"
  by (cases "items d") (auto simp add: deque_append_def Let_def drop_Cons')

lemma deque_append_maxlen: "maxlen (deque_append d x) = maxlen d"
  by (simp add: deque_append_def Let_def split: option.splits)

lemma deque_append_length:
  "maxlen d = Some m \<Longrightarrow> length (items d) \<le> m \<Longrightarrow> length (items (deque_append d x)) \<le> m"
  by (auto simp add: deque_append_def Let_def)

lemma should_click_history_ok:
  "history_ok s \<Longrightarrow> history_ok (fst (should_click s v t))"
  by (simp add: history_ok_def should_click_history should_click_config
      deque_append_maxlen deque_append_length)

lemma should_click_items:
  "history_ok s \<Longrightarrow>
   items (volume_history (fst (should_click s v t))) =
     drop (Suc (length (items (volume_history s))) - WINDOW_SIZE s)
       (items (volume_history s) @ [v])"
  by (simp add: history_ok_def should_click_history deque_append_items)

lemma calls_history:
  "history_ok s \<Longrightarrow>
   history_ok (fst (should_click_calls s cs)) \<and>
   items (volume_history (fst (should_click_calls s cs))) =
     drop (length (items (volume_history s)) + length cs - WINDOW_SIZE s)
       (items (volume_history s) @ map fst cs)"
proof (induction cs arbitrary: s)
  case Nil
  then show ?case by (simp add: history_ok_def)
next
  case (Cons c cs)
  obtain v t where c: "c = (v, t)" by (cases c)
  let ?s1 = "fst (should_click s v t)"
  let ?h = "items (volume_history s)"
  let ?w = "WINDOW_SIZE s"
  have ok1: "history_ok ?s1"
    by (rule should_click_history_ok [OF Cons.prems])
  have h1: "items (volume_history ?s1) = drop (Suc (length ?h) - ?w) (?h @ [v])"
    by (rule should_click_items [OF Cons.prems])
  have len: "length ?h \<le> ?w"
    using Cons.prems by (simp add: history_ok_def)
  from Cons.IH [OF ok1]
  have ok2: "history_ok (fst (should_click_calls ?s1 cs))"
    and h2: "items (volume_history (fst (should_click_calls ?s1 cs))) =
       drop (length (items (volume_history ?s1)) + length cs - ?w)
         (items (volume_history ?s1) @ map fst cs)"
    by (simp_all add: should_click_config)
  have "drop (length (items (volume_history ?s1)) + length cs - ?w)
         (items (volume_history ?s1) @ map fst cs)
        = drop (length ?h + length (c # cs) - ?w) (?h @ map fst (c # cs))"
  proof (cases "length ?h < ?w")
    case True
    then show ?thesis by (simp add: h1 c)
  next
    case False
    with len have eq: "length ?h = ?w" by simp
    show ?thesis
    proof (cases ?h)
      case Nil
      with eq show ?thesis by (simp add: h1 c)
    next
      case (Cons a as)
      with eq show ?thesis by (simp add: h1 c)
    qed
  qed
  with ok2 h2 show ?case
    by (simp add: c split_beta)
qed

lemma should_click_history_irrelevant:
  "should_click (s\<lparr>volume_history := h\<rparr>) v t =
     ((fst (should_click s v t))\<lparr>volume_history := deque_append h v\<rparr>, snd (should_click s v t))"
  by (simp add: should_click_def Let_def)

lemma calls_history_irrelevant:
  "snd (should_click_calls (s\<lparr>volume_history := h\<rparr>) cs) = snd (should_click_calls s cs)"
proof (induction cs arbitrary: s h)
  case Nil
  show ?case by simp
next
  case (Cons c cs)
  obtain v t where c: "c = (v, t)" by (cases c)
  show ?case
    using Cons.IH [where s = "fst (should_click s v t)" and h = "deque_append h v"]
    by (simp add: c split_beta should_click_history_irrelevant)
qed

lemma calculate_volume_value:
  "calculate_volume s b = (s, if b = [] then 0 else rms b)"
  by (simp add: calculate_volume_def rms_def np_mean_def np_square_def power2_eq_square)

lemma should_click_flags:
  "should_click (s\<lparr>is_running := a, stop_event := b\<rparr>) v t =
     ((fst (should_click s v t))\<lparr>is_running := a, stop_event := b\<rparr>, snd (should_click s v t))"
  by (simp add: should_click_def Let_def)

lemma run_stream_blocks:
  "StopCall \<notin> set evs \<Longrightarrow>
   run_stream (s\<lparr>is_running := True, stop_event := False\<rparr>) evs =
     ((fst (should_click_calls s
          (map (\<lambda>ev. case ev of
              Block indata status now \<Rightarrow>
                (snd (calculate_volume a
                   (case indata of Array2 rows \<Rightarrow> map fst rows | Array1 xs \<Rightarrow> xs)), now)
            | StopCall \<Rightarrow> (0, 0)) evs)))\<lparr>is_running := True, stop_event := False\<rparr>,
      concat (map (\<lambda>ev. case ev of
              Block indata status now \<Rightarrow> if status then [PrintAudioStatus] else []
            | StopCall \<Rightarrow> []) evs),
      map (fst \<circ> fst) (filter snd (zip
         (map (\<lambda>ev. case ev of
              Block indata status now \<Rightarrow>
                (snd (calculate_volume a
                   (case indata of Array2 rows \<Rightarrow> map fst rows | Array1 xs \<Rightarrow> xs)), now)
            | StopCall \<Rightarrow> (0, 0)) evs)
         (snd (should_click_calls s
          (map (\<lambda>ev. case ev of
              Block indata status now \<Rightarrow>
                (snd (calculate_volume a
                   (case indata of Array2 rows \<Rightarrow> map fst rows | Array1 xs \<Rightarrow> xs)), now)
            | StopCall \<Rightarrow> (0, 0)) evs))))))"
proof (induction evs arbitrary: s)
  case Nil
  show ?case by simp
next
  case (Cons ev evs)
  from Cons.prems obtain indata status now where ev: "ev = Block indata status now"
    by (cases ev) auto
  from Cons.prems have rest: "StopCall \<notin> set evs" by simp
  let ?v = "snd (calculate_volume a
                   (case indata of Array2 rows \<Rightarrow> map fst rows | Array1 xs \<Rightarrow> xs))"
  have cb: "audio_callback (s\<lparr>is_running := True, stop_event := False\<rparr>) indata status now =
     ((fst (should_click s ?v now))\<lparr>is_running := True, stop_event := False\<rparr>,
      if status then [PrintAudioStatus] else [],
      if snd (should_click s ?v now) then [?v] else [])"
    by (simp add: audio_callback_def calculate_volume_value should_click_flags Let_def)
  show ?case
    using Cons.IH [OF rest, of "fst (should_click s ?v now)"]
    by (simp add: ev cb split_beta)
qed

subsection \<open>The claims\<close>

text \<open>
  C1.  For every detector state, volume and clock reading, \<open>should_click\<close> returns true
  exactly when the volume is strictly above \<open>THRESHOLD\<close> and the time since
  \<open>last_click_time\<close> is strictly above \<open>DEBOUNCE_TIME\<close>.  A volume equal to the threshold
  does not trigger, a call exactly \<open>DEBOUNCE_TIME\<close> after the last click does not trigger,
  and \<open>last_click_time\<close> becomes the clock reading on a true return (and keeps its value
  on a false one).
\<close>

theorem should_click_decision:
  "snd (should_click s v now) = (v > THRESHOLD s \<and> now - last_click_time s > DEBOUNCE_TIME s)
   \<and> snd (should_click s (THRESHOLD s) now) = False
   \<and> snd (should_click s v (last_click_time s + DEBOUNCE_TIME s)) = False
   \<and> last_click_time (fst (should_click s v now)) =
       (if snd (should_click s v now) then now else last_click_time s)"
  by (simp add: should_click_def Let_def)

text \<open>
  C3.  Debounce law.  Let a call at time \<open>t0\<close> return true.  Then every later call whose
  time lies in the interval \<open>(t0, t0 + DEBOUNCE_TIME]\<close> returns false, whatever its volume;
  and after any later calls none of which triggered, a call at \<open>t0 + DEBOUNCE_TIME + \<epsilon>\<close>
  with \<open>\<epsilon> > 0\<close> and a volume strictly above the threshold returns true.  (The later calls
  are the list \<open>cs\<close> of volume and time; the order of their times plays no role.)
\<close>

text \<open>
  C2 as stated fails.  The constructor sets \<open>last_click_time\<close> to \<open>0\<close>, and the first call
  compares \<open>now - 0\<close> with \<open>DEBOUNCE_TIME\<close> like every other call: on a fresh object a
  volume of \<open>0.02\<close> (threshold \<open>0.01\<close>) at clock reading \<open>0\<close> does not trigger.
\<close>

theorem first_call_counterexample:
  "last_click_time (init 0 44100) = 0
   \<and> THRESHOLD (init 0 44100) < 1 / 50
   \<and> snd (should_click (init 0 44100) (1 / 50) 0) = False"
  by (simp add: init_def should_click_def Let_def)

text \<open>
  C2, amended.  On a call made while \<open>last_click_time\<close> still has the constructor's value
  \<open>0\<close> (no trigger has occurred), a volume strictly above the threshold triggers exactly
  when the clock reading is strictly above \<open>DEBOUNCE_TIME\<close>; so it triggers for every
  clock reading above \<open>DEBOUNCE_TIME\<close>, as every reading of \<^verbatim>\<open>time.time()\<close> on a real
  clock is.
\<close>

theorem first_call:
  "last_click_time s = 0 \<Longrightarrow> THRESHOLD s < v \<Longrightarrow>
   snd (should_click s v now) = (DEBOUNCE_TIME s < now)"
  by (simp add: should_click_def Let_def)

theorem first_call_witness:
  "last_click_time (init 0 44100) = 0 \<and> THRESHOLD (init 0 44100) < 1 / 50
   \<and> snd (should_click (init 0 44100) (1 / 50) 1000) = (DEBOUNCE_TIME (init 0 44100) < 1000)
   \<and> snd (should_click (init 0 44100) (1 / 50) 1000)"
  using first_call [of "init 0 44100" "1 / 50" 1000]
  by (simp add: init_def should_click_def Let_def)

text \<open>
  C3.  Debounce law.  Let a call at time \<open>t0\<close> return true.  Then every later call whose
  time lies in the interval \<open>(t0, t0 + DEBOUNCE_TIME]\<close> returns false, whatever its volume;
  and after any later calls none of which triggered, a call at \<open>t0 + DEBOUNCE_TIME + \<epsilon>\<close>
  with \<open>\<epsilon> > 0\<close> and a volume strictly above the threshold returns true.  (The later calls
  are the list \<open>cs\<close> of volume and time; the order of their times plays no role.)
\<close>

theorem debounce_law:
  assumes trig: "snd (should_click s v0 t0)"
  shows "((\<forall>c\<in>set cs. t0 < snd c \<and> snd c \<le> t0 + DEBOUNCE_TIME s) \<longrightarrow>
            (\<forall>r\<in>set (snd (should_click_calls (fst (should_click s v0 t0)) cs)). \<not> r))
       \<and> ((\<forall>r\<in>set (snd (should_click_calls (fst (should_click s v0 t0)) cs)). \<not> r)
            \<and> 0 < \<epsilon> \<and> THRESHOLD s < v \<longrightarrow>
            snd (should_click (fst (should_click_calls (fst (should_click s v0 t0)) cs)) v
                   (t0 + DEBOUNCE_TIME s + \<epsilon>)))"
proof -
  let ?s1 = "fst (should_click s v0 t0)"
  from trig have last: "last_click_time ?s1 = t0"
    by (simp add: should_click_last)
  have cfg: "DEBOUNCE_TIME ?s1 = DEBOUNCE_TIME s" "THRESHOLD ?s1 = THRESHOLD s"
    by (simp_all add: should_click_config)
  have a: "\<forall>r\<in>set (snd (should_click_calls ?s1 cs)). \<not> r"
    if "\<forall>c\<in>set cs. t0 < snd c \<and> snd c \<le> t0 + DEBOUNCE_TIME s"
    by (rule calls_in_window) (use that in \<open>simp add: last cfg\<close>)
  have b: "snd (should_click (fst (should_click_calls ?s1 cs)) v (t0 + DEBOUNCE_TIME s + \<epsilon>))"
    if quiet: "\<forall>r\<in>set (snd (should_click_calls ?s1 cs)). \<not> r" and "0 < \<epsilon>" "THRESHOLD s < v"
  proof -
    have "last_click_time (fst (should_click_calls ?s1 cs)) = t0"
      using calls_quiet_last [OF quiet] last by simp
    with that show ?thesis
      using calls_config [of ?s1 cs] by (simp add: should_click_result cfg)
  qed
  from a b show ?thesis by blast
qed

theorem debounce_law_witness:
  "snd (should_click (init 0 44100) (1 / 50) 1000)
   \<and> snd (should_click_calls (fst (should_click (init 0 44100) (1 / 50) 1000))
            [(1 / 20, 1000 + 1 / 20), (1, 1000 + 1 / 5)]) = [False, False]
   \<and> snd (should_click
        (fst (should_click_calls (fst (should_click (init 0 44100) (1 / 50) 1000))
            [(1 / 20, 1000 + 1 / 20), (1, 1000 + 1 / 5)]))
        (15 / 1000) (1000 + DEBOUNCE_TIME (init 0 44100) + 1 / 20))"
  using debounce_law [of "init 0 44100" "1 / 50" 1000
      "[(1 / 20, 1000 + 1 / 20), (1, 1000 + 1 / 5)]" "1 / 20" "15 / 1000"]
  by (simp add: init_def should_click_def Let_def deque_append_def deque_new_def)

text \<open>
  C4.  \<open>calculate_volume\<close> returns the root mean square \<open>rms\<close> of the samples it is given,
  and \<open>0\<close> for an empty block; the result is never negative, it is \<open>0\<close> for a block of
  zeros, and the object is returned as it was.  \<open>audio_callback\<close> takes this volume of the
  first channel: unless the stop signal is set (then it does nothing), on a
  two-dimensional block it calls \<open>should_click\<close> with the root mean square of the first
  column (\<open>0\<close> for a block without frames) and starts a click with that volume exactly
  when \<open>should_click\<close> returns true; a one-dimensional block is taken whole.
\<close>

theorem calculate_volume_rms:
  "snd (calculate_volume s b) = (if b = [] then 0 else rms b)
   \<and> 0 \<le> snd (calculate_volume s b)
   \<and> snd (calculate_volume s (replicate n 0)) = 0
   \<and> snd (calculate_volume s []) = 0
   \<and> fst (calculate_volume s b) = s
   \<and> audio_callback s (Array2 rows) status now =
       (if stop_event s then (s, if status then [PrintAudioStatus] else [], [])
        else (fst (should_click s (if rows = [] then 0 else rms (map fst rows)) now),
              if status then [PrintAudioStatus] else [],
              if snd (should_click s (if rows = [] then 0 else rms (map fst rows)) now)
              then [if rows = [] then 0 else rms (map fst rows)] else []))
   \<and> audio_callback s (Array1 b) status now =
       (if stop_event s then (s, if status then [PrintAudioStatus] else [], [])
        else (fst (should_click s (if b = [] then 0 else rms b) now),
              if status then [PrintAudioStatus] else [],
              if snd (should_click s (if b = [] then 0 else rms b) now)
              then [if b = [] then 0 else rms b] else []))"
proof -
  have 1: "snd (calculate_volume s b) = (if b = [] then 0 else rms b)"
    by (simp add: calculate_volume_value)
  have 2: "0 \<le> snd (calculate_volume s b)"
    by (simp add: calculate_volume_def np_mean_square_nonneg)
  have 3: "snd (calculate_volume s (replicate n 0)) = 0"
    by (simp add: calculate_volume_def np_mean_def np_square_def sum_list_replicate_zero)
  have 4: "snd (calculate_volume s []) = 0"
    by (simp add: calculate_volume_def)
  have 5: "fst (calculate_volume s b) = s"
    by (simp add: calculate_volume_def)
  have 6: "audio_callback s (Array2 rows) status now =
       (if stop_event s then (s, if status then [PrintAudioStatus] else [], [])
        else (fst (should_click s (if rows = [] then 0 else rms (map fst rows)) now),
              if status then [PrintAudioStatus] else [],
              if snd (should_click s (if rows = [] then 0 else rms (map fst rows)) now)
              then [if rows = [] then 0 else rms (map fst rows)] else []))"
    by (simp add: audio_callback_def calculate_volume_value split_beta Let_def)
  have 7: "audio_callback s (Array1 b) status now =
       (if stop_event s then (s, if status then [PrintAudioStatus] else [], [])
        else (fst (should_click s (if b = [] then 0 else rms b) now),
              if status then [PrintAudioStatus] else [],
              if snd (should_click s (if b = [] then 0 else rms b) now)
              then [if b = [] then 0 else rms b] else []))"
    by (simp add: audio_callback_def calculate_volume_value split_beta Let_def)
  from 1 2 3 4 5 6 7 show ?thesis by blast
qed

text \<open>
  C5.  On an object whose history is bounded by \<open>WINDOW_SIZE\<close> (as the constructor builds
  it, with \<open>WINDOW_SIZE = 5\<close>), every \<open>should_click\<close> call, triggering or not, appends the
  volume on the right and drops the oldest entry when the bound would be exceeded; after
  any sequence of calls the history holds at most \<open>WINDOW_SIZE\<close> entries, namely the last
  ones of the old history followed by the volumes of the calls, in order.  Replacing the
  history by any other one changes no return value of the calls.
\<close>

theorem history_window:
  assumes ok: "history_ok s"
  shows "history_ok (fst (should_click s v now))
   \<and> items (volume_history (fst (should_click s v now))) =
       drop (Suc (length (items (volume_history s))) - WINDOW_SIZE s)
         (items (volume_history s) @ [v])
   \<and> length (items (volume_history (fst (should_click_calls s cs)))) \<le> WINDOW_SIZE s
   \<and> items (volume_history (fst (should_click_calls s cs))) =
       drop (length (items (volume_history s)) + length cs - WINDOW_SIZE s)
         (items (volume_history s) @ map fst cs)
   \<and> snd (should_click (s\<lparr>volume_history := h\<rparr>) v now) = snd (should_click s v now)
   \<and> snd (should_click_calls (s\<lparr>volume_history := h\<rparr>) cs) = snd (should_click_calls s cs)
   \<and> history_ok (init dev rate) \<and> WINDOW_SIZE (init dev rate) = 5"
proof -
  have 1: "history_ok (fst (should_click s v now))"
    by (rule should_click_history_ok [OF ok])
  have 2: "items (volume_history (fst (should_click s v now))) =
       drop (Suc (length (items (volume_history s))) - WINDOW_SIZE s)
         (items (volume_history s) @ [v])"
    by (rule should_click_items [OF ok])
  have 3: "length (items (volume_history (fst (should_click_calls s cs)))) \<le> WINDOW_SIZE s"
    using calls_history [OF ok, of cs] calls_config [of s cs] by (simp add: history_ok_def)
  have 4: "items (volume_history (fst (should_click_calls s cs))) =
       drop (length (items (volume_history s)) + length cs - WINDOW_SIZE s)
         (items (volume_history s) @ map fst cs)"
    using calls_history [OF ok, of cs] by simp
  have 5: "snd (should_click (s\<lparr>volume_history := h\<rparr>) v now) = snd (should_click s v now)"
    by (simp add: should_click_history_irrelevant)
  have 6: "snd (should_click_calls (s\<lparr>volume_history := h\<rparr>) cs) = snd (should_click_calls s cs)"
    by (rule calls_history_irrelevant)
  have 7: "history_ok (init dev rate) \<and> WINDOW_SIZE (init dev rate) = 5"
    by (simp add: history_ok_def init_def deque_new_def)
  from 1 2 3 4 5 6 7 show ?thesis by blast
qed

theorem history_window_witness:
  "history_ok (init 0 44100)
   \<and> items (volume_history (fst (should_click_calls (init 0 44100)
        [(1, 1000), (2, 1001), (3, 1002), (4, 1003), (5, 1004), (6, 1005), (7, 1006)])))
     = [3, 4, 5, 6, 7]"
  using history_window [of "init 0 44100" 1 1000
      "[(1, 1000), (2, 1001), (3, 1002), (4, 1003), (5, 1004), (6, 1005), (7, 1006)]"
      "deque_new None" 0 44100]
  by (simp add: init_def deque_new_def history_ok_def)

text \<open>
  C6 as stated fails: \<open>start\<close> assigns \<open>is_running\<close> and clears \<open>stop_event\<close> and nothing
  else.  A first run with one loud block at time \<open>1000\<close> leaves the history \<open>[0.02]\<close> and
  \<open>last_click_time = 1000\<close>; a second \<open>start\<close> on that idle object keeps both, so that a
  loud block at time \<open>1000.1\<close> of the second run is debounced by the click of the first
  run, while the same block clicks on a fresh object.
\<close>

theorem start_keeps_history_counterexample:
  "start (init 0 44100) [Block (Array1 [1 / 50]) False 1000] (Raised KeyboardInterrupt) =
     Returns ((init 0 44100)\<lparr>last_click_time := 1000,
                volume_history := \<lparr>maxlen = Some 5, items = [1 / 50]\<rparr>, stop_event := True\<rparr>,
              [PrintListening (1 / 100), Print ''Strum your guitar to trigger mouse clicks!'',
               Print ''Press Ctrl+C to stop'', Print (CHR 0x0A # ''Stopping...''),
               Print ''Stopped!''],
              [1 / 50])
   \<and> is_running ((init 0 44100)\<lparr>last_click_time := 1000,
                volume_history := \<lparr>maxlen = Some 5, items = [1 / 50]\<rparr>, stop_event := True\<rparr>)
       = False
   \<and> start ((init 0 44100)\<lparr>last_click_time := 1000,
                volume_history := \<lparr>maxlen = Some 5, items = [1 / 50]\<rparr>, stop_event := True\<rparr>)
        [Block (Array1 [1 / 50]) False (1000 + 1 / 10)] (Raised KeyboardInterrupt) =
     Returns ((init 0 44100)\<lparr>last_click_time := 1000,
                volume_history := \<lparr>maxlen = Some 5, items = [1 / 50, 1 / 50]\<rparr>,
                stop_event := True\<rparr>,
              [PrintListening (1 / 100), Print ''Strum your guitar to trigger mouse clicks!'',
               Print ''Press Ctrl+C to stop'', Print (CHR 0x0A # ''Stopping...''),
               Print ''Stopped!''],
              [])
   \<and> start (init 0 44100)
        [Block (Array1 [1 / 50]) False (1000 + 1 / 10)] (Raised KeyboardInterrupt) =
     Returns ((init 0 44100)\<lparr>last_click_time := 1000 + 1 / 10,
                volume_history := \<lparr>maxlen = Some 5, items = [1 / 50]\<rparr>, stop_event := True\<rparr>,
              [PrintListening (1 / 100), Print ''Strum your guitar to trigger mouse clicks!'',
               Print ''Press Ctrl+C to stop'', Print (CHR 0x0A # ''Stopping...''),
               Print ''Stopped!''],
              [1 / 50])"
  by (simp add: start_def init_def Let_def audio_callback_def calculate_volume_single
      should_click_def deque_append_def deque_new_def stop_def)

text \<open>
  C6, amended.  Every \<open>start\<close> call from the idle state sets the running flag and clears
  the stop signal before it processes blocks, and leaves the volume history and
  \<open>last_click_time\<close> as they are.  For every stream behaviour the result of \<open>start\<close> is
  that of processing the events from the object with only these two flags changed,
  followed by the closing \<open>stop\<close>; with the flags so set the waiting loop is entered, and
  a run that nothing interrupts does not return.  A run without blocks returns the
  object with only the stop signal set.  The blocks of a run are judged like a sequence
  of \<open>should_click\<close> calls on the object as it was before \<open>start\<close>: against its
  \<open>last_click_time\<close>, and appended to its history, also when the stop signal was set
  before.
\<close>

theorem start_from_idle:
  assumes idle: "\<not> is_running s"
  shows "start s evs e =
     (let listening = [PrintListening (THRESHOLD s),
                       Print ''Strum your guitar to trigger mouse clicks!'',
                       Print ''Press Ctrl+C to stop''];
          stopped = [Print (CHR 0x0A # ''Stopping...''), Print ''Stopped!''];
          (s2, out2, clicks) = run_stream (s\<lparr>is_running := True, stop_event := False\<rparr>) evs
      in if is_running s2 \<and> \<not> stop_event s2
         then (case e of
                 Raised (Exception msg) \<Rightarrow>
                   Returns (s2\<lparr>is_running := False, stop_event := True\<rparr>,
                     listening @ out2 @
                     [PrintStreamError msg,
                      Print (CHR 0x0A # ''Troubleshooting tips:''),
                      Print ''1. Make sure your Rocksmith cable is plugged in'',
                      Print ''2. Try selecting a different device number'',
                      Print ''3. Check Windows Sound settings - make sure the cable shows input levels'',
                      Print ''4. Try running as administrator''] @ stopped,
                     clicks)
               | Raised KeyboardInterrupt \<Rightarrow>
                   Returns (s2\<lparr>is_running := False, stop_event := True\<rparr>,
                     listening @ out2 @ stopped, clicks)
               | NeverLeft \<Rightarrow> Diverges)
         else Returns (s2\<lparr>is_running := False, stop_event := True\<rparr>,
                listening @ out2 @ stopped, clicks))
   \<and> start s [] NeverLeft = Diverges
   \<and> start s [] (Raised KeyboardInterrupt) =
           Returns (s\<lparr>stop_event := True\<rparr>,
             [PrintListening (THRESHOLD s), Print ''Strum your guitar to trigger mouse clicks!'',
              Print ''Press Ctrl+C to stop'', Print (CHR 0x0A # ''Stopping...''),
              Print ''Stopped!''], [])
   \<and> (\<exists>s' out.
            start s [Block (Array1 b) status now] (Raised KeyboardInterrupt) =
              Returns (s', out,
                if THRESHOLD s < snd (calculate_volume s b)
                   \<and> DEBOUNCE_TIME s < now - last_click_time s
                then [snd (calculate_volume s b)] else [])
            \<and> is_running s' = False \<and> stop_event s' = True
            \<and> volume_history s' =
                deque_append (volume_history s) (snd (calculate_volume s b))
            \<and> last_click_time s' =
                (if THRESHOLD s < snd (calculate_volume s b)
                    \<and> DEBOUNCE_TIME s < now - last_click_time s
                 then now else last_click_time s))
   \<and> (StopCall \<notin> set evs \<longrightarrow>
          start s evs NeverLeft = Diverges
          \<and> (\<exists>out. start s evs (Raised x) =
                Returns ((fst (should_click_calls s (map (\<lambda>ev. case ev of
                Block indata status now \<Rightarrow>
                  (snd (calculate_volume s
                     (case indata of Array2 rows \<Rightarrow> map fst rows | Array1 xs \<Rightarrow> xs)), now)
              | StopCall \<Rightarrow> (0, 0)) evs)))
                            \<lparr>is_running := False, stop_event := True\<rparr>,
                         out,
                         map (fst \<circ> fst) (filter snd
                           (zip (map (\<lambda>ev. case ev of
                Block indata status now \<Rightarrow>
                  (snd (calculate_volume s
                     (case indata of Array2 rows \<Rightarrow> map fst rows | Array1 xs \<Rightarrow> xs)), now)
              | StopCall \<Rightarrow> (0, 0)) evs) (snd (should_click_calls s (map (\<lambda>ev. case ev of
                Block indata status now \<Rightarrow>
                  (snd (calculate_volume s
                     (case indata of Array2 rows \<Rightarrow> map fst rows | Array1 xs \<Rightarrow> xs)), now)
              | StopCall \<Rightarrow> (0, 0)) evs))))))))"
proof -
  have 1: "start s evs e =
     (let listening = [PrintListening (THRESHOLD s),
                       Print ''Strum your guitar to trigger mouse clicks!'',
                       Print ''Press Ctrl+C to stop''];
          stopped = [Print (CHR 0x0A # ''Stopping...''), Print ''Stopped!''];
          (s2, out2, clicks) = run_stream (s\<lparr>is_running := True, stop_event := False\<rparr>) evs
      in if is_running s2 \<and> \<not> stop_event s2
         then (case e of
                 Raised (Exception msg) \<Rightarrow>
                   Returns (s2\<lparr>is_running := False, stop_event := True\<rparr>,
                     listening @ out2 @
                     [PrintStreamError msg,
                      Print (CHR 0x0A # ''Troubleshooting tips:''),
                      Print ''1. Make sure your Rocksmith cable is plugged in'',
                      Print ''2. Try selecting a different device number'',
                      Print ''3. Check Windows Sound settings - make sure the cable shows input levels'',
                      Print ''4. Try running as administrator''] @ stopped,
                     clicks)
               | Raised KeyboardInterrupt \<Rightarrow>
                   Returns (s2\<lparr>is_running := False, stop_event := True\<rparr>,
                     listening @ out2 @ stopped, clicks)
               | NeverLeft \<Rightarrow> Diverges)
         else Returns (s2\<lparr>is_running := False, stop_event := True\<rparr>,
                listening @ out2 @ stopped, clicks))"
    using idle
    by (cases e) (auto simp add: start_def stop_def Let_def split_beta split: exn.splits)
  have 2: "start s [] NeverLeft = Diverges"
    using idle by (simp add: start_def)
  have 3: "start s [] (Raised KeyboardInterrupt) =
           Returns (s\<lparr>stop_event := True\<rparr>,
             [PrintListening (THRESHOLD s), Print ''Strum your guitar to trigger mouse clicks!'',
              Print ''Press Ctrl+C to stop'', Print (CHR 0x0A # ''Stopping...''),
              Print ''Stopped!''], [])"
    using idle by (simp add: start_def stop_def)
  have 4: "(\<exists>s' out.
            start s [Block (Array1 b) status now] (Raised KeyboardInterrupt) =
              Returns (s', out,
                if THRESHOLD s < snd (calculate_volume s b)
                   \<and> DEBOUNCE_TIME s < now - last_click_time s
                then [snd (calculate_volume s b)] else [])
            \<and> is_running s' = False \<and> stop_event s' = True
            \<and> volume_history s' =
                deque_append (volume_history s) (snd (calculate_volume s b))
            \<and> last_click_time s' =
                (if THRESHOLD s < snd (calculate_volume s b)
                    \<and> DEBOUNCE_TIME s < now - last_click_time s
                 then now else last_click_time s))"
    using idle
    by (simp add: start_def stop_def audio_callback_def should_click_def Let_def
        calculate_volume_def)
  have 5: "(StopCall \<notin> set evs \<longrightarrow>
          start s evs NeverLeft = Diverges
          \<and> (\<exists>out. start s evs (Raised x) =
                Returns ((fst (should_click_calls s (map (\<lambda>ev. case ev of
                Block indata status now \<Rightarrow>
                  (snd (calculate_volume s
                     (case indata of Array2 rows \<Rightarrow> map fst rows | Array1 xs \<Rightarrow> xs)), now)
              | StopCall \<Rightarrow> (0, 0)) evs)))
                            \<lparr>is_running := False, stop_event := True\<rparr>,
                         out,
                         map (fst \<circ> fst) (filter snd
                           (zip (map (\<lambda>ev. case ev of
                Block indata status now \<Rightarrow>
                  (snd (calculate_volume s
                     (case indata of Array2 rows \<Rightarrow> map fst rows | Array1 xs \<Rightarrow> xs)), now)
              | StopCall \<Rightarrow> (0, 0)) evs) (snd (should_click_calls s (map (\<lambda>ev. case ev of
                Block indata status now \<Rightarrow>
                  (snd (calculate_volume s
                     (case indata of Array2 rows \<Rightarrow> map fst rows | Array1 xs \<Rightarrow> xs)), now)
              | StopCall \<Rightarrow> (0, 0)) evs))))))))"
  proof
    assume blocks: "StopCall \<notin> set evs"
    note run = run_stream_blocks [OF blocks, of s s]
    have a: "start s evs NeverLeft = Diverges"
      using idle by (simp add: start_def run)
    have b: "\<exists>out. start s evs (Raised x) =
                Returns ((fst (should_click_calls s (map (\<lambda>ev. case ev of
                Block indata status now \<Rightarrow>
                  (snd (calculate_volume s
                     (case indata of Array2 rows \<Rightarrow> map fst rows | Array1 xs \<Rightarrow> xs)), now)
              | StopCall \<Rightarrow> (0, 0)) evs)))
                            \<lparr>is_running := False, stop_event := True\<rparr>,
                         out,
                         map (fst \<circ> fst) (filter snd
                           (zip (map (\<lambda>ev. case ev of
                Block indata status now \<Rightarrow>
                  (snd (calculate_volume s
                     (case indata of Array2 rows \<Rightarrow> map fst rows | Array1 xs \<Rightarrow> xs)), now)
              | StopCall \<Rightarrow> (0, 0)) evs) (snd (should_click_calls s (map (\<lambda>ev. case ev of
                Block indata status now \<Rightarrow>
                  (snd (calculate_volume s
                     (case indata of Array2 rows \<Rightarrow> map fst rows | Array1 xs \<Rightarrow> xs)), now)
              | StopCall \<Rightarrow> (0, 0)) evs))))))"
      using idle by (cases x) (simp_all add: start_def run stop_def)
    from a b show "start s evs NeverLeft = Diverges
          \<and> (\<exists>out. start s evs (Raised x) =
                Returns ((fst (should_click_calls s (map (\<lambda>ev. case ev of
                Block indata status now \<Rightarrow>
                  (snd (calculate_volume s
                     (case indata of Array2 rows \<Rightarrow> map fst rows | Array1 xs \<Rightarrow> xs)), now)
              | StopCall \<Rightarrow> (0, 0)) evs)))
                            \<lparr>is_running := False, stop_event := True\<rparr>,
                         out,
                         map (fst \<circ> fst) (filter snd
                           (zip (map (\<lambda>ev. case ev of
                Block indata status now \<Rightarrow>
                  (snd (calculate_volume s
                     (case indata of Array2 rows \<Rightarrow> map fst rows | Array1 xs \<Rightarrow> xs)), now)
              | StopCall \<Rightarrow> (0, 0)) evs) (snd (should_click_calls s (map (\<lambda>ev. case ev of
                Block indata status now \<Rightarrow>
                  (snd (calculate_volume s
                     (case indata of Array2 rows \<Rightarrow> map fst rows | Array1 xs \<Rightarrow> xs)), now)
              | StopCall \<Rightarrow> (0, 0)) evs)))))))"
      by blast
  qed
  from 1 2 3 4 5 show ?thesis by blast
qed

theorem start_from_idle_witness:
  "\<not> is_running ((init 0 44100)\<lparr>stop_event := True\<rparr>)
   \<and> start ((init 0 44100)\<lparr>stop_event := True\<rparr>) [] NeverLeft = Diverges
   \<and> start ((init 0 44100)\<lparr>stop_event := True\<rparr>) [] (Raised KeyboardInterrupt) =
       Returns ((init 0 44100)\<lparr>stop_event := True\<rparr>,
         [PrintListening (1 / 100), Print ''Strum your guitar to trigger mouse clicks!'',
          Print ''Press Ctrl+C to stop'', Print (CHR 0x0A # ''Stopping...''),
          Print ''Stopped!''], [])
   \<and> StopCall \<notin> set [Block (Array1 [1 / 50]) False 1000]
   \<and> start ((init 0 44100)\<lparr>stop_event := True\<rparr>) [Block (Array1 [1 / 50]) False 1000] NeverLeft
       = Diverges"
  using start_from_idle [where s = "(init 0 44100)\<lparr>stop_event := True\<rparr>"
      and evs = "[Block (Array1 [1 / 50]) False 1000]" and e = NeverLeft
      and b = "[1 / 50]" and status = False and now = 1000 and x = KeyboardInterrupt]
  by (simp add: init_def start_def stop_def audio_callback_def calculate_volume_single
      should_click_def deque_append_def deque_new_def Let_def)

text \<open>
  C7.  \<open>start\<close> on an object that is already running returns at once, prints
  \<^verbatim>\<open>Already running!\<close>, starts no click and leaves every field of the object unchanged,
  whatever the stream would have delivered.
\<close>

theorem start_already_running:
  "is_running s \<Longrightarrow> start s evs e = Returns (s, [Print ''Already running!''], [])"
  by (simp add: start_def)

theorem start_already_running_witness:
  "is_running ((init 0 44100)\<lparr>is_running := True\<rparr>)
   \<and> start ((init 0 44100)\<lparr>is_running := True\<rparr>) [Block (Array1 [1]) False 1000] NeverLeft
     = Returns ((init 0 44100)\<lparr>is_running := True\<rparr>, [Print ''Already running!''], [])"
  using start_already_running [of "(init 0 44100)\<lparr>is_running := True\<rparr>"
      "[Block (Array1 [1]) False 1000]" NeverLeft]
  by simp

text \<open>
  C8 as stated fails on an object that was never started: it is idle, and \<open>stop\<close> sets
  its stop signal, so the object after the call is not the object before it.
\<close>

theorem stop_counterexample:
  "is_running (init 0 44100) = False
   \<and> stop (init 0 44100) =
       Returns ((init 0 44100)\<lparr>stop_event := True\<rparr>,
                [Print (CHR 0x0A # ''Stopping...''), Print ''Stopped!''])
   \<and> (init 0 44100)\<lparr>stop_event := True\<rparr> \<noteq> init 0 44100"
  by (simp add: stop_def init_def)

text \<open>
  C8, amended.  \<open>stop\<close> never raises: in every state it returns, with the running flag
  cleared and the stop signal set and no other field changed.  A second \<open>stop\<close> leaves
  the object as the first one left it (idempotence).  On an idle object \<open>stop\<close> changes
  no field but the stop signal; the call leaves the object as it was exactly when
  the object is idle and its stop signal is already set, as after any earlier \<open>stop\<close>.
\<close>

theorem stop_idempotent:
  "stop s = Returns (s\<lparr>is_running := False, stop_event := True\<rparr>,
                    [Print (CHR 0x0A # ''Stopping...''), Print ''Stopped!''])
   \<and> stop (s\<lparr>is_running := False, stop_event := True\<rparr>) =
       Returns (s\<lparr>is_running := False, stop_event := True\<rparr>,
                    [Print (CHR 0x0A # ''Stopping...''), Print ''Stopped!''])
   \<and> (\<not> is_running s \<longrightarrow>
        stop s = Returns (s\<lparr>stop_event := True\<rparr>,
                    [Print (CHR 0x0A # ''Stopping...''), Print ''Stopped!'']))
   \<and> (stop s = Returns (s, [Print (CHR 0x0A # ''Stopping...''), Print ''Stopped!'']))
       = (\<not> is_running s \<and> stop_event s)"
proof -
  have 1: "stop s = Returns (s\<lparr>is_running := False, stop_event := True\<rparr>,
                    [Print (CHR 0x0A # ''Stopping...''), Print ''Stopped!''])"
    by (simp add: stop_def)
  have 2: "stop (s\<lparr>is_running := False, stop_event := True\<rparr>) =
       Returns (s\<lparr>is_running := False, stop_event := True\<rparr>,
                    [Print (CHR 0x0A # ''Stopping...''), Print ''Stopped!''])"
    by (simp add: stop_def)
  have 3: "\<not> is_running s \<longrightarrow>
        stop s = Returns (s\<lparr>stop_event := True\<rparr>,
                    [Print (CHR 0x0A # ''Stopping...''), Print ''Stopped!''])"
    by (simp add: stop_def)
  have 4: "(stop s = Returns (s, [Print (CHR 0x0A # ''Stopping...''), Print ''Stopped!'']))
       = (\<not> is_running s \<and> stop_event s)"
  proof
    assume "stop s = Returns (s, [Print (CHR 0x0A # ''Stopping...''), Print ''Stopped!''])"
    then have eq: "s\<lparr>is_running := False, stop_event := True\<rparr> = s"
      by (simp add: stop_def)
    have "is_running (s\<lparr>is_running := False, stop_event := True\<rparr>) = False"
      and "stop_event (s\<lparr>is_running := False, stop_event := True\<rparr>) = True"
      by simp_all
    then show "\<not> is_running s \<and> stop_event s"
      unfolding eq by simp
  next
    assume "\<not> is_running s \<and> stop_event s"
    then show "stop s = Returns (s, [Print (CHR 0x0A # ''Stopping...''), Print ''Stopped!''])"
      by (simp add: stop_def)
  qed
  from 1 2 3 4 show ?thesis by blast
qed

theorem stop_idempotent_witness:
  "\<not> is_running (init 0 44100)
   \<and> stop (init 0 44100) =
       Returns ((init 0 44100)\<lparr>stop_event := True\<rparr>,
                [Print (CHR 0x0A # ''Stopping...''), Print ''Stopped!''])
   \<and> \<not> is_running ((init 0 44100)\<lparr>stop_event := True\<rparr>)
   \<and> stop_event ((init 0 44100)\<lparr>stop_event := True\<rparr>)
   \<and> stop ((init 0 44100)\<lparr>stop_event := True\<rparr>) =
       Returns ((init 0 44100)\<lparr>stop_event := True\<rparr>,
                [Print (CHR 0x0A # ''Stopping...''), Print ''Stopped!''])
   \<and> stop ((init 0 44100)\<lparr>is_running := True\<rparr>) =
       Returns ((init 0 44100)\<lparr>is_running := False, stop_event := True\<rparr>,
                [Print (CHR 0x0A # ''Stopping...''), Print ''Stopped!''])"
  using stop_idempotent [of "init 0 44100"]
    stop_idempotent [of "(init 0 44100)\<lparr>stop_event := True\<rparr>"]
    stop_idempotent [of "(init 0 44100)\<lparr>is_running := True\<rparr>"]
  by (simp add: init_def)




text \<open>
  C10.  For every real \<open>x\<close>, \<open>adjust_sensitivity\<close> returns (it does not raise) with
  \<open>THRESHOLD\<close> set to \<open>min (max x 0.001) 1\<close>, which lies in the closed interval
  \<open>[0.001, 1]\<close>, also for zero and negative \<open>x\<close>.
\<close>

theorem adjust_sensitivity_clamps:
  "adjust_sensitivity s x =
     Returns (s\<lparr>THRESHOLD := min (max x (1 / 1000)) 1\<rparr>,
              [PrintSensitivity (min (max x (1 / 1000)) 1)])
   \<and> 1 / 1000 \<le> min (max x (1 / 1000)) 1
   \<and> min (max x (1 / 1000)) 1 \<le> 1"
  by (auto simp add: adjust_sensitivity_def Let_def min_def max_def)

end
